theory Spec2Isabelle
  imports Complex_Main "HOL-Library.Log_Nat"
begin

chapter \<open>The embedding\<close>

section \<open>Data\<close>

text \<open>
  The source is a single TypeScript/React file, \<^verbatim>\<open>src/index.tsx\<close>. Its string-literal union
  types become datatypes and its object types become records. The field \<^verbatim>\<open>id\<close> is written
  \<open>id'\<close> and \<^verbatim>\<open>top\<close> is written \<open>top'\<close>, since \<open>id\<close> and \<open>top\<close> are constants of HOL.
\<close>

datatype shape = Circle | Square | Diamond | Star

datatype atmosphere = Smoke | Stars | Glitch | LightShafts | Void

datatype speed = Fast | Normal | Slow

datatype strand = A | B

record RealityItem =
  id' :: string
  title :: string
  subtitle :: string
  bgImage :: string
  themeColor :: string
  particleColor :: string
  particleShape :: shape
  description :: string
  atmosphereType :: atmosphere

definition realities :: "RealityItem list" where
  "realities =
    [\<lparr>id' = ''dragon'',
      title = ''Dragon's Den'',
      subtitle = ''Ancient Era'',
      bgImage = ''https://lh3.googleusercontent.com/aida-public/AB6AXuDso3MbbToJS5hclxf-6uzpc2MLOvsZBRBnKnnDCO6BVmKcF35rN_9vlw34B6cbAkurqDKrNMEhUEPFL0O8HMvcrybAg57NGHSbGG0RE47G6gnTcFizjZ1ie-WMW-_KrRcL2QksaU3pSWD7kflP1TdvN9yL9jio_e4sYfPQHKdG7xe3rDNQ2kBvip2xATno1SoUoYmRR_qyrQAZw6yZ5axF9X4jLikyWEPtT_zOR4zUMteNCOSpbUxnTQal89O0JcH8TcoDX_94N8Y3'',
      themeColor = ''#FF4E00'',
      particleColor = ''#FFD700'',
      particleShape = Diamond,
      description = ''A realm of fire and scales where ancient beasts guard treasures beyond imagination.'',
      atmosphereType = Smoke\<rparr>,
     \<lparr>id' = ''cosmic'',
      title = ''Cosmic Voyage'',
      subtitle = ''Future Echo'',
      bgImage = ''https://lh3.googleusercontent.com/aida-public/AB6AXuD7yCfvOKUjs1tELcFEmvvOquG-UVzM71K2avNZxWQpc3ZqX39BSiYLz-PCDvTS1-XrFGXyL_ZJzjpC2fqi2f8nrXdojj81JUcNMFr9GBvIVFQIYq7cMQajOntdGASxVO_2qWEc81aGChhU3PsfPwIfYiJo0D1J3mykyuTF5b_2gm5wT6m0tRWNYMSPjgWetEwrHyxKkp0Io_wKe7IV413Ck2pAkNWj3R4ZxYoyxgGGmI39F8JgqYXmlvcwtk7W2JWEYSES95_BYCs6'',
      themeColor = ''#0070F3'',
      particleColor = ''#50E3C2'',
      particleShape = Star,
      description = ''Drifting through the stardust of a thousand dead suns, silence is your only companion.'',
      atmosphereType = Stars\<rparr>,
     \<lparr>id' = ''neon'',
      title = ''Cyber City'',
      subtitle = ''Digital Dream'',
      bgImage = ''https://lh3.googleusercontent.com/aida-public/AB6AXuA4Id3GFAYel2iaVZrVODrSxHDW2qYlaMPyAS226hWpQWLOHZiNE7kDPswd2FSE7WeXYSeQ3LsbL84PeQ4n-uMiWXqslNRYLmor-yC_Mo5iGS5yckRimbcUIwJCswEs50kEK971X737BrMTlficXDbSIwi99tcBbiZhebtKmo6CbdnFhQ2BU7HJk8jv_cMBCSLF1kgIXpcTJxLwgvwaV4SyeZ2nzEwFJad-cy_kuHJ7lCl92r1qKCVKwtqYaZ-OwrPkF4sp3IpPQkM_'',
      themeColor = ''#BD00FF'',
      particleColor = ''#FF00FF'',
      particleShape = Square,
      description = ''Neon lights reflect on wet pavement as the pulse of the city synchronizes with your heartbeat.'',
      atmosphereType = Glitch\<rparr>,
     \<lparr>id' = ''forest'',
      title = ''Spirit Woods'',
      subtitle = ''Nature's Whisper'',
      bgImage = ''https://lh3.googleusercontent.com/aida-public/AB6AXuBWzf34Ia_sZeP_wAcehk5OtoRrwRg0w569_BrZMa9Xh4-DvvtCPsNAS-oLpPGZHiM-xgMtoQWatsS49NVqMRqrJ3bKyIfdjmKeH86mCW7dGpbWkgwQMe2RO9VZ1WLhos1d-CoABhbSC45Bkyp6JxUT1NevSllX78WwrWZcrdWh0gLItEZdC4-dAUaLKcAXdumjvvgNW2fdACggf7TAGCG2ZaYOp5fTNyLL1vhpuEZJaAXRsp7GLa_NWRqP9ullccc2QLPxQrNlOGSQ'',
      themeColor = ''#4ADE80'',
      particleColor = ''#10B981'',
      particleShape = Circle,
      description = ''Ancient trees guard secrets whispered by the wind, waiting for a soul quiet enough to listen.'',
      atmosphereType = LightShafts\<rparr>]"

section \<open>Numbers\<close>

text \<open>
  JavaScript numbers are IEEE 754 binary64 values. The standard fixes the result of \<^verbatim>\<open>+\<close>,
  \<^verbatim>\<open>*\<close> and \<^verbatim>\<open>>=\<close> bit for bit; \<^verbatim>\<open>Math.sin\<close> and \<^verbatim>\<open>Math.cos\<close> return implementation-defined
  approximations. Two models of numbers are used.

  \<^item> Exact. A finite binary64 value is \<open>mantissa * 2 ^ exponent\<close>; a sum or a product is
    the exact one rounded to a significand of 53 bits, ties to even. This is the model of
    the corruption counter of \<^verbatim>\<open>useCorruption\<close>, whose branch \<^verbatim>\<open>prev >= 1\<close> tests a sum of rounded
    sums, of the duration of a particle, computed from a draw with \<^verbatim>\<open>+\<close> and \<^verbatim>\<open>*\<close> only, and
    of the scale and the opacity of a vault item, computed from what \<^verbatim>\<open>Math.cos\<close> returned
    with \<^verbatim>\<open>+\<close>, \<^verbatim>\<open>*\<close> and \<^verbatim>\<open>/ 2\<close> only: the computations of which an exact bound or an exact
    ratio is stated below. Overflow to infinity and subnormal values are not modelled;
    neither arises in the counter, in the scale or in the opacity, nor in the duration
    unless \<^verbatim>\<open>Math.random\<close> returns a value below \<open>2 ^ - 1022\<close> that is not zero.
  \<^item> Real. The helix layout as a whole and the other fields of a particle are modelled
    over the real numbers, with \<open>sin\<close>, \<open>cos\<close> and \<open>pi\<close> of HOL: what is proved of them is
    proved of the formulas, not of the rounding of each operation. Only properties that
    do not depend on that rounding are stated of this model: which expression computes a
    field, the parity of the strands, the order of two values.
\<close>

datatype double = Double (mantissa: int) (exponent: int)

definition valueOf :: "double \<Rightarrow> real" where
  "valueOf x =
     (if 0 \<le> exponent x then of_int (mantissa x) * 2 ^ nat (exponent x)
      else of_int (mantissa x) / 2 ^ nat (- exponent x))"

text \<open>\<open>m / 2 ^ k\<close> rounded to the nearest integer, a tie going to the even neighbour.\<close>

definition roundToEven :: "int \<Rightarrow> nat \<Rightarrow> int" where
  "roundToEven m k =
     (let q = m div 2 ^ k; r = m mod 2 ^ k
      in if 2 * r < 2 ^ k then q
         else if 2 * r > 2 ^ k then q + 1
         else if even q then q else q + 1)"

text \<open>The exact value \<open>m * 2 ^ e\<close> rounded to a significand of at most 53 bits.\<close>

definition binary64 :: "int \<Rightarrow> int \<Rightarrow> double" where
  "binary64 m e = (let k = nat (bitlen \<bar>m\<bar> - 53) in Double (roundToEven m k) (e + int k))"

text \<open>\<^verbatim>\<open>x + y\<close>: both operands are aligned to the smaller exponent, added exactly, then rounded.\<close>

definition add64 :: "double \<Rightarrow> double \<Rightarrow> double" where
  "add64 x y =
     (let e = min (exponent x) (exponent y)
      in binary64 (mantissa x * 2 ^ nat (exponent x - e) + mantissa y * 2 ^ nat (exponent y - e)) e)"

text \<open>\<^verbatim>\<open>x * y\<close>: the exact product, rounded.\<close>

definition mul64 :: "double \<Rightarrow> double \<Rightarrow> double" where
  "mul64 x y = binary64 (mantissa x * mantissa y) (exponent x + exponent y)"

text \<open>\<^verbatim>\<open>x >= y\<close>, on the aligned significands.\<close>

definition ge64 :: "double \<Rightarrow> double \<Rightarrow> bool" where
  "ge64 x y =
     (let e = min (exponent x) (exponent y)
      in mantissa x * 2 ^ nat (exponent x - e) \<ge> mantissa y * 2 ^ nat (exponent y - e))"

text \<open>
  The literals \<^verbatim>\<open>0\<close>, \<^verbatim>\<open>1\<close>, \<^verbatim>\<open>2\<close>, \<^verbatim>\<open>3\<close> (also written \<^verbatim>\<open>3.0\<close>), \<^verbatim>\<open>0.5\<close>, \<^verbatim>\<open>0.2\<close>,
  \<^verbatim>\<open>0.005\<close>, \<^verbatim>\<open>0.6\<close>, \<^verbatim>\<open>0.4\<close> and \<^verbatim>\<open>1.1\<close>, and the constant \<^verbatim>\<open>Math.PI\<close>. A decimal literal that
  is not a binary fraction denotes the binary64 value nearest to it: \<open>7205759403792794 / 2 ^ 55\<close>
  for \<^verbatim>\<open>0.2\<close>, \<open>5764607523034235 / 2 ^ 60\<close> for \<^verbatim>\<open>0.005\<close>, \<open>5404319552844595 / 2 ^ 53\<close> for
  \<^verbatim>\<open>0.6\<close>, \<open>7205759403792794 / 2 ^ 54\<close> for \<^verbatim>\<open>0.4\<close> and \<open>4953959590107546 / 2 ^ 52\<close> for \<^verbatim>\<open>1.1\<close>.
  \<^verbatim>\<open>Math.PI\<close> is \<open>7074237752028440 / 2 ^ 51\<close> (\<open>3.141592653589793\<close>).
\<close>

definition zero64 :: double where
  "zero64 = Double 0 0"

definition one64 :: double where
  "one64 = Double 1 0"

definition two64 :: double where
  "two64 = Double 2 0"

definition three64 :: double where
  "three64 = Double 3 0"

definition half64 :: double where
  "half64 = Double 1 (- 1)"

definition fifth64 :: double where
  "fifth64 = Double 7205759403792794 (- 55)"

definition increment64 :: double where
  "increment64 = Double 5764607523034235 (- 60)"

definition sixTenths64 :: double where
  "sixTenths64 = Double 5404319552844595 (- 53)"

definition fourTenths64 :: double where
  "fourTenths64 = Double 7205759403792794 (- 54)"

definition elevenTenths64 :: double where
  "elevenTenths64 = Double 4953959590107546 (- 52)"





section \<open>The corruption counter (\<^verbatim>\<open>useCorruption\<close>)\<close>

text \<open>
  The function passed to \<^verbatim>\<open>setCorruption\<close> by each tick of the interval:
  \<^verbatim>\<open>prev => { if (prev >= 1) return 1; return prev + 0.005; }\<close>
\<close>

definition updater :: "double \<Rightarrow> double" where
  "updater prev = (if ge64 prev one64 then one64 else add64 prev increment64)"

text \<open>
  The hook's state is the value of \<^verbatim>\<open>corruption\<close> and the value of \<^verbatim>\<open>isActive\<close> that the effect
  last ran with; the interval is running exactly when that value is true. The state
  changes on two events: the interval fires (every 50 ms, only while it is running), or the
  component renders with a value of \<^verbatim>\<open>isActive\<close>. The effect depends on \<^verbatim>\<open>[isActive]\<close>: it runs
  again only when the value has changed, clearing the old interval first; with a false
  value it sets \<^verbatim>\<open>corruption\<close> to 0 and starts no interval.
\<close>

record hook =
  corruption :: double
  isActive :: bool

datatype event = Tick | Render bool

definition useCorruption_mount :: "bool \<Rightarrow> hook" where
  "useCorruption_mount b = \<lparr>corruption = zero64, isActive = b\<rparr>"

fun useCorruption :: "hook \<Rightarrow> event \<Rightarrow> hook" where
  "useCorruption s Tick =
     (if isActive s then s\<lparr>corruption := updater (corruption s)\<rparr> else s)"
| "useCorruption s (Render b) =
     (if b = isActive s then s
      else if \<not> b then s\<lparr>corruption := zero64, isActive := False\<rparr>
      else s\<lparr>isActive := True\<rparr>)"

section \<open>The particles (\<^verbatim>\<open>TakingOverParticles\<close>)\<close>

text \<open>
  The component reads two ambient sources while it renders: \<^verbatim>\<open>Math.random()\<close> and
  \<^verbatim>\<open>Date.now()\<close>. Both are made explicit. A source is the sequence of the values its calls
  return (\<open>rnd k\<close> is what the \<open>k\<close>-th call of \<^verbatim>\<open>Math.random\<close> returns, \<open>clk k\<close> what the \<open>k\<close>-th
  call of \<^verbatim>\<open>Date.now\<close> returns, in milliseconds), and the \<open>world\<close> counts the calls made so
  far. Every function that calls one of them takes the world and returns it updated.

  \<^verbatim>\<open>Math.random\<close> returns a binary64 value, at least 0 and less than 1. The duration of a
  particle is computed from it in binary64; the other fields are computed over the reals,
  from the value of the draw.
\<close>

record world =
  randomCalls :: nat
  nowCalls :: nat

definition initialWorld :: world where
  "initialWorld = \<lparr>randomCalls = 0, nowCalls = 0\<rparr>"

definition Math_random :: "(nat \<Rightarrow> double) \<Rightarrow> world \<Rightarrow> double \<times> world" where
  "Math_random rnd w = (rnd (randomCalls w), w\<lparr>randomCalls := Suc (randomCalls w)\<rparr>)"

definition Date_now :: "(nat \<Rightarrow> int) \<Rightarrow> world \<Rightarrow> int \<times> world" where
  "Date_now clk w = (clk (nowCalls w), w\<lparr>nowCalls := Suc (nowCalls w)\<rparr>)"

record shapeStyle =
  borderRadius :: string
  transform :: "string option"
  clipPath :: "string option"

definition getShapeStyle :: "shape \<Rightarrow> shapeStyle" where
  "getShapeStyle s =
     (case s of
        Square \<Rightarrow> \<lparr>borderRadius = ''0'', transform = None, clipPath = None\<rparr>
      | Diamond \<Rightarrow> \<lparr>borderRadius = ''0'', transform = Some ''rotate(45deg)'', clipPath = None\<rparr>
      | Star \<Rightarrow>
          \<lparr>borderRadius = ''0'', transform = None,
           clipPath = Some ''polygon(50% 0%, 61% 35%, 98% 35%, 68% 57%, 79% 91%, 50% 70%, 21% 91%, 32% 57%, 2% 35%, 39% 35%)''\<rparr>
      | Circle \<Rightarrow> \<lparr>borderRadius = ''50%'', transform = None, clipPath = None\<rparr>)"

definition getDurationMultiplier :: "speed \<Rightarrow> double" where
  "getDurationMultiplier speed =
     (if speed = Fast then fifth64 else if speed = Slow then three64 else one64)"

definition particleCount :: nat where
  "particleCount = 40"

text \<open>
  The style object of one particle. Lengths and times are kept as numbers: \<open>width\<close> and
  \<open>height\<close> in px, \<open>tx\<close> in vw (the custom property \<^verbatim>\<open>--tx\<close>), \<open>ty\<close> in vh (\<^verbatim>\<open>--ty\<close>),
  \<open>duration\<close> (the time in the \<^verbatim>\<open>animation\<close> shorthand, a binary64 value) and \<open>animationDelay\<close>
  in seconds.
  The object's \<^verbatim>\<open>opacity\<close> is written \<open>opacityP\<close>.
\<close>

record particleStyle = shapeStyle +
  width :: real
  height :: real
  backgroundColor :: string
  boxShadow :: string
  tx :: real
  ty :: real
  duration :: double
  animationDelay :: real
  opacityP :: real

text \<open>
  The callback of \<^verbatim>\<open>particles.map((_, i) => ...)\<close>. The calls of \<^verbatim>\<open>Math.random\<close> are made in
  the order of the source: angle, distance, duration, delay, then, inside the style object,
  width and height. The style object spreads \<^verbatim>\<open>shapeStyle\<close> first and ends with
  \<^verbatim>\<open>transform: `translate(0, 0)`\<close>, which replaces any transform of the shape.
\<close>

definition particle ::
  "(nat \<Rightarrow> double) \<Rightarrow> (nat \<Rightarrow> int) \<Rightarrow> double \<Rightarrow> shape \<Rightarrow> string \<Rightarrow> nat \<Rightarrow> world
     \<Rightarrow> particleStyle \<times> world" where
  "particle rnd clk mult shape color i w0 =
     (let (r1, w1) = Math_random rnd w0; angle = valueOf r1 * pi * 2;
          (r2, w2) = Math_random rnd w1; distance = 80 + valueOf r2 * 50;
          (r3, w3) = Math_random rnd w2; duration = mul64 (add64 two64 (mul64 r3 three64)) mult;
          (r4, w4) = Math_random rnd w3; delay = valueOf r4 * 2;
          shapeStyle = getShapeStyle shape;
          (now, w5) = Date_now clk w4; windX = sin (real_of_int now / 1000 + real i) * 20;
          (r5, w6) = Math_random rnd w5;
          (r6, w7) = Math_random rnd w6
      in (shapeStyle.extend (shapeStyle\<lparr>transform := Some ''translate(0, 0)''\<rparr>)
            \<lparr>width = 2 + valueOf r5 * 4,
             height = 2 + valueOf r6 * 4,
             backgroundColor = color,
             boxShadow = ''0 0 10px '' @ color,
             tx = cos angle * distance + windX,
             ty = sin angle * distance,
             duration = duration,
             animationDelay = delay,
             opacityP = 0\<rparr>, w7))"

text \<open>\<^verbatim>\<open>map\<close> with a callback that reads the ambient sources: the world is threaded through.\<close>

fun renderEach :: "(nat \<Rightarrow> world \<Rightarrow> 'a \<times> world) \<Rightarrow> nat list \<Rightarrow> world \<Rightarrow> 'a list \<times> world" where
  "renderEach f [] w = ([], w)"
| "renderEach f (i # is) w =
     (let (p, w') = f i w; (ps, w'') = renderEach f is w' in (p # ps, w''))"

text \<open>
  The component. Its property \<^verbatim>\<open>corruption\<close> (written \<open>corruption'\<close>, the hook's state having
  the name) is received and never read.
\<close>

definition TakingOverParticles ::
  "(nat \<Rightarrow> double) \<Rightarrow> (nat \<Rightarrow> int) \<Rightarrow> double \<Rightarrow> string \<Rightarrow> speed \<Rightarrow> shape \<Rightarrow> world
     \<Rightarrow> particleStyle list \<times> world" where
  "TakingOverParticles rnd clk corruption' color speed shape w =
     (let mult = getDurationMultiplier speed
      in renderEach (particle rnd clk mult shape color) [0..<particleCount] w)"

text \<open>The world after \<open>k\<close> particles: each makes six calls of \<^verbatim>\<open>Math.random\<close> and one of \<^verbatim>\<open>Date.now\<close>.\<close>

definition advance :: "nat \<Rightarrow> world \<Rightarrow> world" where
  "advance k w = w\<lparr>randomCalls := randomCalls w + 6 * k, nowCalls := nowCalls w + k\<rparr>"

text \<open>Sources used as concrete inputs.\<close>

definition fixedRandom :: "double \<Rightarrow> nat \<Rightarrow> double" where
  "fixedRandom r k = r"

definition zeroUntil :: "nat \<Rightarrow> nat \<Rightarrow> double" where
  "zeroUntil n k = (if k < n then zero64 else half64)"

definition unequalDraws :: "nat \<Rightarrow> double" where
  "unequalDraws k = (if k = 5 then half64 else zero64)"

definition frozenClock :: "int \<Rightarrow> nat \<Rightarrow> int" where
  "frozenClock t k = t"

section \<open>The helix layout of the vault (\<^verbatim>\<open>vaultItems\<close> in \<^verbatim>\<open>VaultDimension\<close>)\<close>

record VaultItem = RealityItem +
  left :: real
  top' :: real
  scale :: real
  zIndex :: int
  opacity :: real
  rotation :: real
  delay :: real
  strand :: strand

definition baseItems :: "RealityItem list" where
  "baseItems =
     realities
     @ map (\<lambda>r. r\<lparr>id' := id' r @ ''-dup''\<rparr>) realities
     @ map (\<lambda>r. r\<lparr>id' := id' r @ ''-dup2''\<rparr>) realities
     @ map (\<lambda>r. r\<lparr>id' := id' r @ ''-dup3''\<rparr>) realities
     @ [(realities ! 0)\<lparr>id' := ''locked-1'', title := ''Locked Memory'', subtitle := ''Encrypted''\<rparr>,
        (realities ! 1)\<lparr>id' := ''locked-2'', title := ''Locked Memory'', subtitle := ''Encrypted''\<rparr>,
        (realities ! 2)\<lparr>id' := ''locked-3'', title := ''Locked Memory'', subtitle := ''Encrypted''\<rparr>]"

text \<open>
  The local constants of the callback passed to \<^verbatim>\<open>baseItems.map\<close>, as functions of the index,
  over the real numbers.
\<close>

definition strandOf :: "nat \<Rightarrow> strand" where
  "strandOf i = (if i mod 2 = 0 then A else B)"

definition verticalSpacing :: real where
  "verticalSpacing = 110"

definition amplitude :: real where
  "amplitude = 90"

definition frequency :: real where
  "frequency = 0.4"

definition phaseOffset :: "nat \<Rightarrow> real" where
  "phaseOffset i = (if strandOf i = A then 0 else pi)"

definition angle :: "nat \<Rightarrow> real" where
  "angle i = (real i * frequency) + phaseOffset i"

definition xOffset :: "nat \<Rightarrow> real" where
  "xOffset i = sin (angle i) * amplitude"

definition depth :: "nat \<Rightarrow> real" where
  "depth i = cos (angle i)"

definition zScale :: "nat \<Rightarrow> real" where
  "zScale i = 0.6 + ((depth i + 1) / 2) * 0.5"

definition zIndexOf :: "nat \<Rightarrow> int" where
  "zIndexOf i = \<lfloor>zScale i * 100\<rfloor>"

definition opacityOf :: "nat \<Rightarrow> real" where
  "opacityOf i = 0.4 + ((depth i + 1) / 2) * 0.6"







text \<open>The object returned for item \<open>i\<close>: the item's own fields, then the placement.\<close>

definition helixPlacement :: "RealityItem \<Rightarrow> nat \<Rightarrow> VaultItem" where
  "helixPlacement item i =
     RealityItem.extend item
       \<lparr>left = 50 + xOffset i,
        top' = 150 + real i * verticalSpacing,
        scale = zScale i,
        zIndex = zIndexOf i,
        opacity = opacityOf i,
        rotation = sin (angle i) * 10,
        delay = real i * 0.05,
        strand = strandOf i\<rparr>"

text \<open>\<^verbatim>\<open>xs.map((item, i) => f(item, i))\<close>: the callback receives each element with its index.\<close>

definition mapIndexed :: "('a \<Rightarrow> nat \<Rightarrow> 'b) \<Rightarrow> 'a list \<Rightarrow> 'b list" where
  "mapIndexed f xs = map (\<lambda>(i, x). f x i) (enumerate 0 xs)"

definition layoutHelix :: "RealityItem list \<Rightarrow> VaultItem list" where
  "layoutHelix items = mapIndexed helixPlacement items"

definition vaultItems :: "VaultItem list" where
  "vaultItems = layoutHelix baseItems"

section \<open>Clicking a vault item (\<^verbatim>\<open>onClick\<close> in \<^verbatim>\<open>VaultDimension\<close>)\<close>

text \<open>\<^verbatim>\<open>s.startsWith(p)\<close>\<close>

definition startsWith :: "string \<Rightarrow> string \<Rightarrow> bool" where
  "startsWith s p = (take (length p) s = p)"

text \<open>
  \<^verbatim>\<open>s.replace(/-dup\d?$/, '')\<close>. The pattern matches at a position when the rest of the string
  is \<^verbatim>\<open>-dup\<close> or \<^verbatim>\<open>-dup\<close> and one decimal digit, and nothing follows. \<^verbatim>\<open>replace\<close> with a
  pattern that has no \<^verbatim>\<open>g\<close> flag replaces the leftmost match only; a string with no match
  is returned as it is.
\<close>

definition isDigit :: "char \<Rightarrow> bool" where
  "isDigit c = (c \<in> set ''0123456789'')"

definition matchesDupAtEnd :: "string \<Rightarrow> bool" where
  "matchesDupAtEnd s =
     (take 4 s = ''-dup'' \<and> (length s = 4 \<or> (length s = 5 \<and> isDigit (s ! 4))))"

fun replaceDup :: "string \<Rightarrow> string" where
  "replaceDup [] = []"
| "replaceDup (c # cs) = (if matchesDupAtEnd (c # cs) then [] else c # replaceDup cs)"

text \<open>What a click does, as the list of the calls it makes.\<close>

datatype effect = PlayThud | PlayMemoryUnlock | OnSelectReality string

definition isLocked :: "VaultItem \<Rightarrow> bool" where
  "isLocked item = startsWith (id' item) ''locked''"

definition onClick :: "VaultItem \<Rightarrow> effect list" where
  "onClick item =
     (if isLocked item then [PlayThud]
      else [PlayMemoryUnlock, OnSelectReality (replaceDup (id' item))])"

chapter \<open>Properties\<close>

section \<open>The helix layout\<close>

lemma length_mapIndexed: "length (mapIndexed f xs) = length xs"
  by (simp add: mapIndexed_def)

lemma nth_mapIndexed: "i < length xs \<Longrightarrow> mapIndexed f xs ! i = f (xs ! i) i"
  by (simp add: mapIndexed_def nth_enumerate_eq)

lemma length_layoutHelix: "length (layoutHelix items) = length items"
  by (simp add: layoutHelix_def length_mapIndexed)

lemma nth_layoutHelix:
  "i < length items \<Longrightarrow> layoutHelix items ! i = helixPlacement (items ! i) i"
  by (simp add: layoutHelix_def nth_mapIndexed)

lemma truncate_helixPlacement: "RealityItem.truncate (helixPlacement item i) = item"
  by (simp add: helixPlacement_def RealityItem.defs)

lemma map_truncate_layoutHelix: "map RealityItem.truncate (layoutHelix items) = items"
  by (rule nth_equalityI)
     (simp_all add: length_layoutHelix nth_layoutHelix truncate_helixPlacement)

lemma id_helixPlacement: "id' (helixPlacement item i) = id' item"
  by (simp add: helixPlacement_def RealityItem.defs)

lemma strand_helixPlacement: "strand (helixPlacement item i) = strandOf i"
  by (simp add: helixPlacement_def RealityItem.defs)

lemma scale_helixPlacement: "scale (helixPlacement item i) = zScale i"
  by (simp add: helixPlacement_def RealityItem.defs)

lemma opacity_helixPlacement: "opacity (helixPlacement item i) = opacityOf i"
  by (simp add: helixPlacement_def RealityItem.defs)

lemma zIndex_helixPlacement: "zIndex (helixPlacement item i) = zIndexOf i"
  by (simp add: helixPlacement_def RealityItem.defs)

lemma left_helixPlacement: "left (helixPlacement item i) = 50 + sin (angle i) * 90"
  by (simp add: helixPlacement_def RealityItem.defs xOffset_def amplitude_def)

lemma rotation_helixPlacement: "rotation (helixPlacement item i) = sin (angle i) * 10"
  by (simp add: helixPlacement_def RealityItem.defs)

lemma length_baseItems: "length baseItems = 19"
  by (simp add: baseItems_def realities_def)

lemma length_vaultItems: "length vaultItems = 19"
  by (simp add: vaultItems_def length_layoutHelix length_baseItems)

lemma depth_0: "depth 0 = 1"
  by (simp add: depth_def angle_def phaseOffset_def strandOf_def)

lemma depth_1: "depth 1 < 0"
proof -
  have "0 < cos (0.4::real)"
    by (rule cos_gt_zero) (use pi_ge_two in simp_all)
  then show ?thesis
    by (simp add: depth_def angle_def phaseOffset_def strandOf_def frequency_def)
qed

text \<open>
  Claim C1. The helix layout returns one placement per input item, in the input's order:
  for every input list the output has the length of the input and, with the placement
  fields dropped, it is the input itself. The empty list is laid out as the empty list.
\<close>

theorem layoutHelix_same_length_and_order:
  "length (layoutHelix items) = length items
   \<and> map RealityItem.truncate (layoutHelix items) = items
   \<and> layoutHelix [] = []"
  by (simp add: map_truncate_layoutHelix length_layoutHelix)
     (simp add: layoutHelix_def mapIndexed_def)

text \<open>
  Claim C2. For every index \<open>i\<close> of the layout, the strand of item \<open>i\<close> is \<open>A\<close> if and only if
  \<open>i\<close> is even, and the phase angle of item \<open>i\<close> is \<open>i * frequency\<close> plus an offset of \<open>0\<close> on
  strand \<open>A\<close> and \<open>pi\<close> on strand \<open>B\<close>, that is \<open>i * 0.4 + (if even i then 0 else pi)\<close>. The
  placement's \<open>left\<close> and \<open>rotation\<close> are computed from that angle.
\<close>

theorem strand_and_angle_by_parity:
  "\<forall>i < length items.
     (strand (layoutHelix items ! i) = A \<longleftrightarrow> even i)
     \<and> angle i = real i * frequency + (if strand (layoutHelix items ! i) = A then 0 else pi)
     \<and> angle i = real i * 0.4 + (if even i then 0 else pi)
     \<and> left (layoutHelix items ! i) = 50 + sin (angle i) * 90
     \<and> rotation (layoutHelix items ! i) = sin (angle i) * 10"
  by (simp add: nth_layoutHelix strand_helixPlacement left_helixPlacement rotation_helixPlacement
        angle_def phaseOffset_def strandOf_def frequency_def even_iff_mod_2_eq_zero)

theorem strand_and_angle_by_parity_witness:
  "(3::nat) < length baseItems
   \<and> strand (layoutHelix baseItems ! 3) = B
   \<and> angle 3 = 1.2 + pi
   \<and> left (layoutHelix baseItems ! 3) = 50 + sin (1.2 + pi) * 90"
proof -
  have i: "(3::nat) < length baseItems"
    by (simp add: length_baseItems)
  from strand_and_angle_by_parity [of baseItems, rule_format, OF i] i
  show ?thesis
    by (cases "strand (layoutHelix baseItems ! 3)") (simp_all add: frequency_def)
qed

text \<open>
  Claim C4. For every index \<open>i\<close> of the layout's output, the z-index of item \<open>i\<close> is exactly the
  floor of a hundred times its scale; hence it is monotone in the scale: an item whose
  scale is not larger has a z-index that is not larger.
\<close>

theorem zIndex_is_floor_of_scale:
  "\<forall>i < length (layoutHelix items).
     zIndex (layoutHelix items ! i) = \<lfloor>scale (layoutHelix items ! i) * 100\<rfloor>
     \<and> (\<forall>j < length (layoutHelix items).
           scale (layoutHelix items ! i) \<le> scale (layoutHelix items ! j)
           \<longrightarrow> zIndex (layoutHelix items ! i) \<le> zIndex (layoutHelix items ! j))"
  by (simp add: length_layoutHelix nth_layoutHelix scale_helixPlacement zIndex_helixPlacement
        zIndexOf_def floor_mono)

theorem zIndex_is_floor_of_scale_witness:
  "(0::nat) < length (layoutHelix baseItems)
   \<and> (1::nat) < length (layoutHelix baseItems)
   \<and> scale (layoutHelix baseItems ! 0) = 1.1
   \<and> zIndex (layoutHelix baseItems ! 0) = 110
   \<and> scale (layoutHelix baseItems ! 1) \<le> scale (layoutHelix baseItems ! 0)
   \<and> zIndex (layoutHelix baseItems ! 1) \<le> zIndex (layoutHelix baseItems ! 0)"
proof -
  have i: "(0::nat) < length (layoutHelix baseItems)" and j: "(1::nat) < length (layoutHelix baseItems)"
    by (simp_all add: length_layoutHelix length_baseItems)
  have s0: "scale (layoutHelix baseItems ! 0) = 1.1"
    using i by (simp add: length_layoutHelix nth_layoutHelix scale_helixPlacement zScale_def depth_0)
  have "zScale 1 \<le> zScale 0"
    using depth_0 depth_1 by (simp add: zScale_def)
  then have le: "scale (layoutHelix baseItems ! 1) \<le> scale (layoutHelix baseItems ! 0)"
    using i j by (simp add: length_layoutHelix nth_layoutHelix scale_helixPlacement)
  from zIndex_is_floor_of_scale [of baseItems, rule_format, OF i]
  have "zIndex (layoutHelix baseItems ! 0) = 110"
    by (simp add: s0)
  moreover from zIndex_is_floor_of_scale [of baseItems, rule_format, OF j, THEN conjunct2, rule_format, OF i le]
  have "zIndex (layoutHelix baseItems ! 1) \<le> zIndex (layoutHelix baseItems ! 0)" .
  ultimately show ?thesis
    using i j s0 le by simp
qed

text \<open>
  Claim C5. Scale and opacity are monotone in the shared depth value, the cosine of the
  phase angle: for any two indices \<open>i\<close> and \<open>j\<close> of the layout's output, if the depth of \<open>i\<close>
  is greater than the depth of \<open>j\<close>, then the scale of item \<open>i\<close> is at least the scale of
  item \<open>j\<close> and the opacity of item \<open>i\<close> is at least the opacity of item \<open>j\<close>.
\<close>

theorem scale_and_opacity_monotone_in_depth:
  "\<forall>i < length (layoutHelix items). \<forall>j < length (layoutHelix items).
     depth i = cos (angle i) \<and> depth j = cos (angle j)
     \<and> (depth i > depth j \<longrightarrow>
          scale (layoutHelix items ! i) \<ge> scale (layoutHelix items ! j)
          \<and> opacity (layoutHelix items ! i) \<ge> opacity (layoutHelix items ! j))"
  by (simp add: length_layoutHelix nth_layoutHelix scale_helixPlacement opacity_helixPlacement
        zScale_def opacityOf_def)
     (simp add: depth_def)

theorem scale_and_opacity_monotone_in_depth_witness:
  "(0::nat) < length (layoutHelix baseItems)
   \<and> (1::nat) < length (layoutHelix baseItems)
   \<and> depth 0 > depth 1
   \<and> scale (layoutHelix baseItems ! 0) \<ge> scale (layoutHelix baseItems ! 1)
   \<and> opacity (layoutHelix baseItems ! 0) \<ge> opacity (layoutHelix baseItems ! 1)"
proof -
  have i: "(0::nat) < length (layoutHelix baseItems)" and j: "(1::nat) < length (layoutHelix baseItems)"
    by (simp_all add: length_layoutHelix length_baseItems)
  have d: "depth 0 > depth 1"
    using depth_0 depth_1 by simp
  from scale_and_opacity_monotone_in_depth [of baseItems, rule_format, OF i j] i j d
  show ?thesis
    by simp
qed

section \<open>The binary64 model\<close>

text \<open>
  The model of \<^verbatim>\<open>+\<close>, \<^verbatim>\<open>*\<close> and \<^verbatim>\<open>>=\<close> against the real numbers: rounding moves an integer by at
  most half a unit of the last kept place, a sum that fits 53 bits is exact, any sum is
  within half a unit in the last place of the exact one, a sum or a product is within a
  \<open>2 ^ 53\<close>-th part of the exact one, and the comparison is that of the values.
\<close>

lemma roundToEven_nearest: "2 * \<bar>roundToEven m k * 2 ^ k - m\<bar> \<le> 2 ^ k"
proof -
  define q where "q = m div 2 ^ k"
  define r where "r = m mod 2 ^ k"
  have m: "m = q * 2 ^ k + r"
    using div_mult_mod_eq [of m "2 ^ k"] by (simp add: q_def r_def)
  have r: "0 \<le> r" "r < 2 ^ k"
    by (simp_all add: r_def)
  have "roundToEven m k = q \<and> 2 * r \<le> 2 ^ k \<or> roundToEven m k = q + 1 \<and> 2 ^ k \<le> 2 * r"
    by (auto simp add: roundToEven_def Let_def q_def r_def)
  then show ?thesis
    using r by (auto simp add: m algebra_simps)
qed

lemma binary64_exact: "bitlen \<bar>m\<bar> \<le> 53 \<Longrightarrow> binary64 m e = Double m e"
  by (simp add: binary64_def roundToEven_def)

lemma valueOf_powr: "valueOf x = of_int (mantissa x) * 2 powr of_int (exponent x)"
  by (simp add: valueOf_def powr_real_of_int field_simps)

lemma valueOf_aligned:
  assumes "e \<le> exponent x"
  shows "valueOf x = of_int (mantissa x * 2 ^ nat (exponent x - e)) * 2 powr of_int e"
proof -
  have "(2::real) powr of_int (exponent x) = 2 powr (of_int (exponent x - e) + of_int e)"
    by simp
  also have "\<dots> = 2 powr of_int (exponent x - e) * 2 powr of_int e"
    by (rule powr_add)
  also have "(2::real) powr of_int (exponent x - e) = 2 ^ nat (exponent x - e)"
    using assms powr_real_of_int [of "2::real" "exponent x - e"] by (simp del: of_int_diff)
  finally show ?thesis
    by (simp add: valueOf_powr)
qed

lemma ge64_iff: "ge64 x y \<longleftrightarrow> valueOf y \<le> valueOf x"
proof -
  define e where "e = min (exponent x) (exponent y)"
  have x: "valueOf x = of_int (mantissa x * 2 ^ nat (exponent x - e)) * 2 powr of_int e"
    and y: "valueOf y = of_int (mantissa y * 2 ^ nat (exponent y - e)) * 2 powr of_int e"
    by (rule valueOf_aligned, simp add: e_def)+
  have "ge64 x y \<longleftrightarrow> mantissa y * 2 ^ nat (exponent y - e) \<le> mantissa x * 2 ^ nat (exponent x - e)"
    by (simp add: ge64_def Let_def e_def)
  also have "\<dots> \<longleftrightarrow> (of_int (mantissa y * 2 ^ nat (exponent y - e)) :: real)
      \<le> of_int (mantissa x * 2 ^ nat (exponent x - e))"
    by (simp only: of_int_le_iff)
  also have "\<dots> \<longleftrightarrow> valueOf y \<le> valueOf x"
    unfolding x y by simp
  finally show ?thesis .
qed

lemma add64_exact:
  assumes "bitlen \<bar>mantissa x * 2 ^ nat (exponent x - min (exponent x) (exponent y))
      + mantissa y * 2 ^ nat (exponent y - min (exponent x) (exponent y))\<bar> \<le> 53"
  shows "valueOf (add64 x y) = valueOf x + valueOf y"
proof -
  define e where "e = min (exponent x) (exponent y)"
  have x: "valueOf x = of_int (mantissa x * 2 ^ nat (exponent x - e)) * 2 powr of_int e"
    and y: "valueOf y = of_int (mantissa y * 2 ^ nat (exponent y - e)) * 2 powr of_int e"
    by (rule valueOf_aligned, simp add: e_def)+
  have "add64 x y
      = Double (mantissa x * 2 ^ nat (exponent x - e) + mantissa y * 2 ^ nat (exponent y - e)) e"
    using assms by (simp add: add64_def Let_def e_def binary64_exact)
  then have "valueOf (add64 x y)
      = of_int (mantissa x * 2 ^ nat (exponent x - e) + mantissa y * 2 ^ nat (exponent y - e))
        * 2 powr of_int e"
    by (simp add: valueOf_powr)
  then show ?thesis
    unfolding x y by (simp add: algebra_simps)
qed

lemma add64_rounds:
  "2 * \<bar>valueOf (add64 x y) - (valueOf x + valueOf y)\<bar> \<le> 2 powr of_int (exponent (add64 x y))"
proof -
  define e where "e = min (exponent x) (exponent y)"
  define s where "s = mantissa x * 2 ^ nat (exponent x - e) + mantissa y * 2 ^ nat (exponent y - e)"
  define k where "k = nat (bitlen \<bar>s\<bar> - 53)"
  have x: "valueOf x = of_int (mantissa x * 2 ^ nat (exponent x - e)) * 2 powr of_int e"
    and y: "valueOf y = of_int (mantissa y * 2 ^ nat (exponent y - e)) * 2 powr of_int e"
    by (rule valueOf_aligned, simp add: e_def)+
  have sum: "valueOf x + valueOf y = of_int s * 2 powr of_int e"
    unfolding x y s_def by (simp add: algebra_simps)
  have a: "add64 x y = Double (roundToEven s k) (e + int k)"
    by (simp add: add64_def binary64_def Let_def e_def s_def k_def)
  have "(2::real) powr of_int (e + int k) = 2 powr (real k + of_int e)"
    by (simp add: add.commute)
  also have "\<dots> = 2 powr real k * 2 powr of_int e"
    by (rule powr_add)
  also have "(2::real) powr real k = 2 ^ k"
    by (simp add: powr_realpow)
  finally have p: "(2::real) powr of_int (e + int k) = 2 ^ k * 2 powr of_int e" .
  have "valueOf (add64 x y) = of_int (roundToEven s k) * 2 powr of_int (e + int k)"
    by (simp only: a valueOf_powr double.sel)
  then have v: "valueOf (add64 x y) = of_int (roundToEven s k * 2 ^ k) * 2 powr of_int e"
    by (simp only: p) simp
  have "valueOf (add64 x y) - (valueOf x + valueOf y)
      = of_int (roundToEven s k * 2 ^ k - s) * 2 powr of_int e"
    unfolding v sum by (simp add: left_diff_distrib)
  then have "2 * \<bar>valueOf (add64 x y) - (valueOf x + valueOf y)\<bar>
      = of_int (2 * \<bar>roundToEven s k * 2 ^ k - s\<bar>) * 2 powr of_int e"
    by (simp add: abs_mult)
  also have "\<dots> \<le> of_int (2 ^ k) * 2 powr of_int e"
    by (intro mult_right_mono of_int_le_iff [THEN iffD2] roundToEven_nearest) simp
  also have "\<dots> = 2 powr of_int (exponent (add64 x y))"
    by (simp only: a double.sel p) simp
  finally show ?thesis .
qed

text \<open>Rounding to 53 bits moves an integer by at most its \<open>2 ^ 53\<close>-th part.\<close>

lemma roundToEven_relative:
  "2 ^ 53 * \<bar>roundToEven m (nat (bitlen \<bar>m\<bar> - 53)) * 2 ^ nat (bitlen \<bar>m\<bar> - 53) - m\<bar> \<le> \<bar>m\<bar>"
proof (cases "bitlen \<bar>m\<bar> \<le> 53")
  case True
  then show ?thesis
    by (simp add: roundToEven_def)
next
  case False
  define k where "k = nat (bitlen \<bar>m\<bar> - 53)"
  from False have k: "nat (bitlen \<bar>m\<bar> - 1) = k + 52" and k1: "k = Suc (k - 1)"
    by (simp_all add: k_def)
  from False have "m \<noteq> 0"
    by auto
  then have "0 < \<bar>m\<bar>"
    by simp
  from bitlen_bounds [OF this] have "2 ^ (k + 52) \<le> \<bar>m\<bar>"
    by (simp add: k)
  moreover have "(2::int) ^ (k + 52) = 2 ^ 53 * 2 ^ (k - 1)"
    by (subst k1) (simp add: power_add)
  moreover have "2 * \<bar>roundToEven m k * 2 ^ k - m\<bar> \<le> 2 * 2 ^ (k - 1)"
    using roundToEven_nearest [of m k] by (subst (asm) (2) k1) simp
  ultimately have "2 ^ 53 * \<bar>roundToEven m k * 2 ^ k - m\<bar> \<le> \<bar>m\<bar>"
    by simp
  then show ?thesis
    by (simp add: k_def)
qed

lemma binary64_error:
  "\<bar>valueOf (binary64 m e) - of_int m * 2 powr of_int e\<bar> \<le> \<bar>of_int m * 2 powr of_int e\<bar> / 2 ^ 53"
proof -
  define k where "k = nat (bitlen \<bar>m\<bar> - 53)"
  have "(2::real) powr of_int (e + int k) = 2 powr (real k + of_int e)"
    by (simp add: add.commute)
  also have "\<dots> = 2 powr real k * 2 powr of_int e"
    by (rule powr_add)
  also have "(2::real) powr real k = 2 ^ k"
    by (simp add: powr_realpow)
  finally have p: "(2::real) powr of_int (e + int k) = 2 ^ k * 2 powr of_int e" .
  have "valueOf (binary64 m e) = of_int (roundToEven m k) * 2 powr of_int (e + int k)"
    by (simp add: binary64_def k_def valueOf_powr)
  then have "valueOf (binary64 m e) = of_int (roundToEven m k * 2 ^ k) * 2 powr of_int e"
    by (simp only: p) simp
  then have "valueOf (binary64 m e) - of_int m * 2 powr of_int e
      = of_int (roundToEven m k * 2 ^ k - m) * 2 powr of_int e"
    by (simp add: left_diff_distrib)
  then have "2 ^ 53 * \<bar>valueOf (binary64 m e) - of_int m * 2 powr of_int e\<bar>
      = of_int (2 ^ 53 * \<bar>roundToEven m k * 2 ^ k - m\<bar>) * 2 powr of_int e"
    by (simp add: abs_mult)
  also have "\<dots> \<le> of_int \<bar>m\<bar> * 2 powr of_int e"
    unfolding k_def
    by (intro mult_right_mono of_int_le_iff [THEN iffD2] roundToEven_relative) simp
  also have "\<dots> = \<bar>of_int m * 2 powr of_int e\<bar>"
    by (simp add: abs_mult)
  finally show ?thesis
    by (simp add: field_simps)
qed

lemma mul64_error:
  "\<bar>valueOf (mul64 x y) - valueOf x * valueOf y\<bar> \<le> \<bar>valueOf x * valueOf y\<bar> / 2 ^ 53"
proof -
  have "valueOf x * valueOf y
      = of_int (mantissa x * mantissa y) * 2 powr of_int (exponent x + exponent y)"
    by (simp add: valueOf_powr powr_add)
  then show ?thesis
    using binary64_error [of "mantissa x * mantissa y" "exponent x + exponent y"]
    by (simp add: mul64_def)
qed

lemma add64_error:
  "\<bar>valueOf (add64 x y) - (valueOf x + valueOf y)\<bar> \<le> \<bar>valueOf x + valueOf y\<bar> / 2 ^ 53"
proof -
  define e where "e = min (exponent x) (exponent y)"
  define s where "s = mantissa x * 2 ^ nat (exponent x - e) + mantissa y * 2 ^ nat (exponent y - e)"
  have x: "valueOf x = of_int (mantissa x * 2 ^ nat (exponent x - e)) * 2 powr of_int e"
    and y: "valueOf y = of_int (mantissa y * 2 ^ nat (exponent y - e)) * 2 powr of_int e"
    by (rule valueOf_aligned, simp add: e_def)+
  have sum: "valueOf x + valueOf y = of_int s * 2 powr of_int e"
    unfolding x y s_def by (simp add: algebra_simps)
  have "add64 x y = binary64 s e"
    by (simp add: add64_def Let_def e_def s_def)
  then show ?thesis
    using binary64_error [of s e] by (simp add: sum)
qed

text \<open>
  The literal \<^verbatim>\<open>0.005\<close>: a normalised significand, less than half a unit in its last place
  (\<open>1 / 2 ^ 60\<close>) away from \<open>5 / 1000\<close>, and so the binary64 value nearest to it. It lies above
  \<open>5 / 1000\<close>.
\<close>

lemma increment64_nearest:
  "\<bar>valueOf increment64 - 5 / 1000\<bar> < 1 / 2 ^ 61"
  "2 ^ 52 \<le> mantissa increment64" "mantissa increment64 < 2 ^ 53"
  "5 / 1000 < valueOf increment64"
  by (simp_all add: valueOf_def increment64_def)

text \<open>
  The literal \<^verbatim>\<open>0.2\<close>, likewise: less than half a unit in its last place (\<open>1 / 2 ^ 55\<close>)
  away from \<open>2 / 10\<close>.
\<close>

lemma fifth64_nearest:
  "\<bar>valueOf fifth64 - 2 / 10\<bar> < 1 / 2 ^ 56"
  "2 ^ 52 \<le> mantissa fifth64" "mantissa fifth64 < 2 ^ 53"
  by (simp_all add: valueOf_def fifth64_def)

lemma valueOf_literals:
  "valueOf zero64 = 0" "valueOf one64 = 1" "valueOf two64 = 2" "valueOf three64 = 3"
  "valueOf half64 = 1 / 2" "valueOf fifth64 = 3602879701896397 / 2 ^ 54"
  by (simp_all add: valueOf_def zero64_def one64_def two64_def three64_def half64_def fifth64_def)

lemma within_relative_error:
  fixes a t :: real
  assumes "\<bar>a - t\<bar> \<le> \<bar>t\<bar> / 2 ^ 53" and "0 \<le> t"
  shows "t - t / 9007199254740992 \<le> a" and "a \<le> t + t / 9007199254740992"
proof -
  from assms have "\<bar>a - t\<bar> \<le> t / 9007199254740992"
    by simp
  then have "a - t \<le> t / 9007199254740992" and "t - a \<le> t / 9007199254740992"
    by (simp_all only: abs_le_iff) simp_all
  then show "t - t / 9007199254740992 \<le> a" and "a \<le> t + t / 9007199254740992"
    by argo+
qed
















text \<open>
  The literals \<^verbatim>\<open>0.6\<close>, \<^verbatim>\<open>0.4\<close> and \<^verbatim>\<open>1.1\<close>: normalised significands, less than half a unit in
  the last place away from the decimal values. \<^verbatim>\<open>0.6\<close> is below \<open>6 / 10\<close>, the other two are
  above \<open>4 / 10\<close> and \<open>11 / 10\<close>.
\<close>

lemma layout_literals_nearest:
  "\<bar>valueOf sixTenths64 - 6 / 10\<bar> < 1 / 2 ^ 54"
  "2 ^ 52 \<le> mantissa sixTenths64" "mantissa sixTenths64 < 2 ^ 53"
  "\<bar>valueOf fourTenths64 - 4 / 10\<bar> < 1 / 2 ^ 55"
  "2 ^ 52 \<le> mantissa fourTenths64" "mantissa fourTenths64 < 2 ^ 53"
  "\<bar>valueOf elevenTenths64 - 11 / 10\<bar> < 1 / 2 ^ 53"
  "2 ^ 52 \<le> mantissa elevenTenths64" "mantissa elevenTenths64 < 2 ^ 53"
  "valueOf sixTenths64 < 6 / 10" "4 / 10 < valueOf fourTenths64" "11 / 10 < valueOf elevenTenths64"
  by (simp_all add: valueOf_def sixTenths64_def fourTenths64_def elevenTenths64_def)

section \<open>The range of the scale and of the opacity\<close>












section \<open>The particles\<close>

lemma snd_particle: "snd (particle rnd clk mult shape color i w) = advance 1 w"
  by (simp add: particle_def Math_random_def Date_now_def advance_def Let_def)

lemma advance_Suc: "advance k (advance (Suc 0) w) = advance (Suc k) w"
  by (simp add: advance_def)

lemma advance_0: "advance 0 w = w"
  by (simp add: advance_def)

lemma length_renderEach: "length (fst (renderEach f is w)) = length is"
  by (induction "is" arbitrary: w) (simp_all add: split_beta Let_def)

text \<open>
  When every call of the callback moves the world on by one particle, the \<open>k\<close>-th element
  of the result is the callback's result in the world moved on by \<open>k\<close> particles.
\<close>

lemma nth_renderEach:
  assumes "\<And>i w. snd (f i w) = advance 1 w"
  shows "k < length is \<Longrightarrow> fst (renderEach f is w) ! k = fst (f (is ! k) (advance k w))"
proof (induction "is" arbitrary: w k)
  case Nil
  then show ?case by simp
next
  case (Cons i "is")
  show ?case
  proof (cases k)
    case 0
    then show ?thesis by (simp add: split_beta Let_def advance_0)
  next
    case (Suc n)
    with Cons.prems have "n < length is" by simp
    from Cons.IH [OF this, of "snd (f i w)"] Suc show ?thesis
      by (simp add: split_beta Let_def assms advance_Suc)
  qed
qed

lemma length_TakingOverParticles:
  "length (fst (TakingOverParticles rnd clk c color speed shape w)) = 40"
  by (simp add: TakingOverParticles_def length_renderEach particleCount_def)

lemma nth_TakingOverParticles:
  "i < 40 \<Longrightarrow>
   fst (TakingOverParticles rnd clk c color speed shape w) ! i =
   fst (particle rnd clk (getDurationMultiplier speed) shape color i (advance i w))"
  using nth_renderEach [of "particle rnd clk (getDurationMultiplier speed) shape color" i "[0..<40]" w]
  by (simp add: TakingOverParticles_def particleCount_def snd_particle)

lemma duration_particle:
  "duration (fst (particle rnd clk mult shape color i w))
     = mul64 (add64 two64 (mul64 (rnd (randomCalls w + 2)) three64)) mult"
  by (simp add: particle_def Math_random_def Date_now_def Let_def shapeStyle.defs numeral_2_eq_2)

lemma width_particle:
  "width (fst (particle rnd clk mult shape color i w)) = 2 + valueOf (rnd (randomCalls w + 4)) * 4"
  by (simp add: particle_def Math_random_def Date_now_def Let_def shapeStyle.defs eval_nat_numeral)

lemma height_particle:
  "height (fst (particle rnd clk mult shape color i w)) = 2 + valueOf (rnd (randomCalls w + 5)) * 4"
  by (simp add: particle_def Math_random_def Date_now_def Let_def shapeStyle.defs eval_nat_numeral)

lemma tx_particle:
  "tx (fst (particle rnd clk mult shape color i w)) =
     cos (valueOf (rnd (randomCalls w)) * pi * 2) * (80 + valueOf (rnd (randomCalls w + 1)) * 50)
     + sin (real_of_int (clk (nowCalls w)) / 1000 + real i) * 20"
  by (simp add: particle_def Math_random_def Date_now_def Let_def shapeStyle.defs eval_nat_numeral)

lemma duration_TakingOverParticles:
  "i < 40 \<Longrightarrow>
   duration (fst (TakingOverParticles rnd clk c color speed shape w) ! i) =
   mul64 (add64 two64 (mul64 (rnd (randomCalls w + 6 * i + 2)) three64)) (getDurationMultiplier speed)"
  by (simp add: nth_TakingOverParticles duration_particle advance_def)

text \<open>A particle reads six values of the random source and one of the clock, and no other.\<close>

lemma particle_cong:
  assumes "\<forall>k < 6. rnd (randomCalls w + k) = rnd' (randomCalls w + k)"
    and "clk (nowCalls w) = clk' (nowCalls w)"
  shows "particle rnd clk mult shape color i w = particle rnd' clk' mult shape color i w"
proof -
  have "rnd (randomCalls w) = rnd' (randomCalls w)"
    using assms(1) [rule_format, of 0] by simp
  moreover have "rnd (Suc (randomCalls w)) = rnd' (Suc (randomCalls w))"
    using assms(1) [rule_format, of 1] by simp
  moreover have "rnd (Suc (Suc (randomCalls w))) = rnd' (Suc (Suc (randomCalls w)))"
    using assms(1) [rule_format, of 2] by simp
  moreover have "rnd (Suc (Suc (Suc (randomCalls w)))) = rnd' (Suc (Suc (Suc (randomCalls w))))"
    using assms(1) [rule_format, of 3] by (simp add: eval_nat_numeral)
  moreover have "rnd (Suc (Suc (Suc (Suc (randomCalls w)))))
      = rnd' (Suc (Suc (Suc (Suc (randomCalls w)))))"
    using assms(1) [rule_format, of 4] by (simp add: eval_nat_numeral)
  moreover have "rnd (Suc (Suc (Suc (Suc (Suc (randomCalls w))))))
      = rnd' (Suc (Suc (Suc (Suc (Suc (randomCalls w))))))"
    using assms(1) [rule_format, of 5] by (simp add: eval_nat_numeral)
  ultimately show ?thesis
    using assms(2) by (simp add: particle_def Math_random_def Date_now_def Let_def)
qed

text \<open>The clock is read for \<open>tx\<close> only.\<close>

lemma particle_clock_only_tx:
  "tx_update (\<lambda>_. 0) (fst (particle rnd clk mult shape color i w))
   = tx_update (\<lambda>_. 0) (fst (particle rnd clk' mult shape color i w))"
  by (simp add: particle_def Math_random_def Date_now_def Let_def shapeStyle.defs)

text \<open>
  The value of \<^verbatim>\<open>2 + r * 3\<close> for a draw \<open>r\<close> that is not negative: positive, whatever the two
  roundings do.
\<close>

lemma base_positive:
  assumes "0 \<le> valueOf r"
  shows "0 < valueOf (add64 two64 (mul64 r three64))"
proof -
  define v where "v = valueOf (mul64 r three64)"
  define b where "b = valueOf (add64 two64 (mul64 r three64))"
  have "\<bar>v - valueOf r * 3\<bar> \<le> \<bar>valueOf r * 3\<bar> / 2 ^ 53"
    using mul64_error [of r three64] by (simp add: v_def valueOf_literals)
  from within_relative_error(1) [OF this] assms have v: "0 \<le> v"
    by simp
  have "\<bar>b - (2 + v)\<bar> \<le> \<bar>2 + v\<bar> / 2 ^ 53"
    using add64_error [of two64 "mul64 r three64"] by (simp add: b_def v_def valueOf_literals)
  from within_relative_error(1) [OF this] v show ?thesis
    unfolding b_def [symmetric] by argo
qed

lemma fast_and_slow:
  assumes "0 < valueOf b"
  defines "f \<equiv> valueOf (mul64 b fifth64)" and "s \<equiv> valueOf (mul64 b three64)"
  shows "f < s" and "\<bar>f / s / (0.2 / 3.0) - 1\<bar> \<le> 1 / 2 ^ 50"
proof -
  define x where "x = valueOf b"
  have x: "0 < x"
    using assms(1) by (simp add: x_def)
  have "\<bar>f - x * (3602879701896397 / 2 ^ 54)\<bar> \<le> \<bar>x * (3602879701896397 / 2 ^ 54)\<bar> / 2 ^ 53"
    using mul64_error [of b fifth64] by (simp add: f_def x_def valueOf_literals)
  from within_relative_error [OF this] x
  have f: "x * (3602879701896397 / 18014398509481984)
        - x * (3602879701896397 / 18014398509481984) / 9007199254740992 \<le> f"
    "f \<le> x * (3602879701896397 / 18014398509481984)
        + x * (3602879701896397 / 18014398509481984) / 9007199254740992"
    by simp_all
  have "\<bar>s - x * 3\<bar> \<le> \<bar>x * 3\<bar> / 2 ^ 53"
    using mul64_error [of b three64] by (simp add: s_def x_def valueOf_literals)
  from within_relative_error [OF this] x
  have s: "x * 3 - x * 3 / 9007199254740992 \<le> s" "s \<le> x * 3 + x * 3 / 9007199254740992"
    by simp_all
  from x s have s0: "0 < s"
    by argo
  from x f s show "f < s"
    by argo
  have "\<bar>15 * f - s\<bar> \<le> s / 1125899906842624"
    using x f s by argo
  then have "\<bar>15 * f - s\<bar> \<le> s / 2 ^ 50"
    by simp
  moreover have "f / s / (0.2 / 3.0) - 1 = (15 * f - s) / s"
    using s0 by (simp add: field_simps)
  ultimately show "\<bar>f / s / (0.2 / 3.0) - 1\<bar> \<le> 1 / 2 ^ 50"
    using s0 by (simp add: abs_divide pos_divide_le_eq)
qed

lemma duration_at_half:
  "mul64 (add64 two64 (mul64 half64 three64)) fifth64 = Double 6305039478318695 (- 53)"
  "mul64 (add64 two64 (mul64 half64 three64)) three64 = Double 21 (- 1)"
  by code_simp+

text \<open>
  Claim C6, as stated, fails on the ratio. \<^verbatim>\<open>Math.random\<close> returns \<open>0.5\<close>: the fast duration is
  \<^verbatim>\<open>(2 + 0.5 * 3) * 0.2\<close>, which is \<open>6305039478318695 / 2 ^ 53\<close> (\<open>0.7000000000000001\<close>), and
  the slow one is \<open>10.5\<close>. Their ratio is neither \<open>0.2 / 3.0\<close> nor the ratio of the two
  multipliers as binary64 values. The two ratios do not round to the same binary64 value
  either: binary64 values are \<open>1 / 2 ^ 56\<close> apart here, the ratio of the multipliers is
  less than half of that away from \<open>4803839602528529 / 2 ^ 56\<close> (\<open>0.06666666666666667\<close>,
  the value of \<^verbatim>\<open>0.2 / 3.0\<close>) and the ratio of the durations less than half of that away
  from the next one, \<open>4803839602528530 / 2 ^ 56\<close> (\<open>0.06666666666666668\<close>).
\<close>

theorem duration_ratio_not_exact:
  "valueOf (duration (fst (TakingOverParticles (fixedRandom half64) (frozenClock 0) zero64
       ''#FFD700'' Fast Diamond initialWorld) ! 0))
     = 6305039478318695 / 2 ^ 53
   \<and> valueOf (duration (fst (TakingOverParticles (fixedRandom half64) (frozenClock 0) zero64
       ''#FFD700'' Slow Diamond initialWorld) ! 0))
     = 10.5
   \<and> valueOf (duration (fst (TakingOverParticles (fixedRandom half64) (frozenClock 0) zero64
       ''#FFD700'' Fast Diamond initialWorld) ! 0))
     / valueOf (duration (fst (TakingOverParticles (fixedRandom half64) (frozenClock 0) zero64
       ''#FFD700'' Slow Diamond initialWorld) ! 0))
     \<noteq> 0.2 / 3.0
   \<and> valueOf (duration (fst (TakingOverParticles (fixedRandom half64) (frozenClock 0) zero64
       ''#FFD700'' Fast Diamond initialWorld) ! 0))
     / valueOf (duration (fst (TakingOverParticles (fixedRandom half64) (frozenClock 0) zero64
       ''#FFD700'' Slow Diamond initialWorld) ! 0))
     \<noteq> valueOf (getDurationMultiplier Fast) / valueOf (getDurationMultiplier Slow)
   \<and> \<bar>valueOf (getDurationMultiplier Fast) / valueOf (getDurationMultiplier Slow)
       - 4803839602528529 / 2 ^ 56\<bar> < 1 / 2 ^ 57
   \<and> \<bar>valueOf (duration (fst (TakingOverParticles (fixedRandom half64) (frozenClock 0) zero64
       ''#FFD700'' Fast Diamond initialWorld) ! 0))
     / valueOf (duration (fst (TakingOverParticles (fixedRandom half64) (frozenClock 0) zero64
       ''#FFD700'' Slow Diamond initialWorld) ! 0))
       - 4803839602528530 / 2 ^ 56\<bar> < 1 / 2 ^ 57"
  by (simp add: duration_TakingOverParticles getDurationMultiplier_def fixedRandom_def
        duration_at_half valueOf_literals)
     (simp add: valueOf_def)

text \<open>
  Claim C6, amended. The duration of a particle is \<^verbatim>\<open>(2 + r * 3) * mult\<close>, each operation rounded
  to binary64, where \<open>r\<close> is what \<^verbatim>\<open>Math.random\<close> returned, a value of \<open>[0, 1)\<close>, and \<open>mult\<close> is
  the multiplier of the speed class: the literal \<^verbatim>\<open>0.2\<close> for fast, \<open>1.0\<close> for normal, \<open>3.0\<close> for
  slow. For the same draws the fast duration is strictly less than the slow one, and their
  ratio is \<open>0.2 / 3.0\<close> up to rounding: the relative error is at most \<open>1 / 2 ^ 50\<close>.
\<close>

theorem duration_scaled_by_speed_class:
  assumes "\<forall>k. 0 \<le> valueOf (rnd k) \<and> valueOf (rnd k) < 1"
  shows "\<forall>i < 40.
     (\<forall>speed. duration (fst (TakingOverParticles rnd clk c color speed shape w) ! i)
        = mul64 (add64 two64 (mul64 (rnd (randomCalls w + 6 * i + 2)) three64))
            (getDurationMultiplier speed))
   \<and> \<bar>valueOf (getDurationMultiplier Fast) - 0.2\<bar> < 1 / 2 ^ 56
   \<and> valueOf (getDurationMultiplier Normal) = 1.0
   \<and> valueOf (getDurationMultiplier Slow) = 3.0
   \<and> valueOf (duration (fst (TakingOverParticles rnd clk c color Fast shape w) ! i))
       < valueOf (duration (fst (TakingOverParticles rnd clk c color Slow shape w) ! i))
   \<and> \<bar>valueOf (duration (fst (TakingOverParticles rnd clk c color Fast shape w) ! i))
       / valueOf (duration (fst (TakingOverParticles rnd clk c color Slow shape w) ! i))
       / (0.2 / 3.0) - 1\<bar> \<le> 1 / 2 ^ 50"
proof (intro allI impI)
  fix i :: nat
  assume i: "i < 40"
  define b where "b = add64 two64 (mul64 (rnd (randomCalls w + 6 * i + 2)) three64)"
  have "0 \<le> valueOf (rnd (randomCalls w + 6 * i + 2))"
    using assms by simp
  then have b: "0 < valueOf b"
    unfolding b_def by (rule base_positive)
  have m: "\<bar>valueOf (getDurationMultiplier Fast) - 0.2\<bar> < 1 / 2 ^ 56"
    "valueOf (getDurationMultiplier Normal) = 1.0" "valueOf (getDurationMultiplier Slow) = 3.0"
    using fifth64_nearest(1) by (simp_all add: getDurationMultiplier_def valueOf_literals)
  have d: "duration (fst (TakingOverParticles rnd clk c color speed shape w) ! i)
      = mul64 b (getDurationMultiplier speed)" for speed
    by (simp add: duration_TakingOverParticles [OF i] b_def)
  have f: "duration (fst (TakingOverParticles rnd clk c color Fast shape w) ! i) = mul64 b fifth64"
    and s: "duration (fst (TakingOverParticles rnd clk c color Slow shape w) ! i) = mul64 b three64"
    by (simp_all add: d getDurationMultiplier_def)
  from fast_and_slow [OF b] m d
  show "(\<forall>speed. duration (fst (TakingOverParticles rnd clk c color speed shape w) ! i)
        = mul64 (add64 two64 (mul64 (rnd (randomCalls w + 6 * i + 2)) three64))
            (getDurationMultiplier speed))
   \<and> \<bar>valueOf (getDurationMultiplier Fast) - 0.2\<bar> < 1 / 2 ^ 56
   \<and> valueOf (getDurationMultiplier Normal) = 1.0
   \<and> valueOf (getDurationMultiplier Slow) = 3.0
   \<and> valueOf (duration (fst (TakingOverParticles rnd clk c color Fast shape w) ! i))
       < valueOf (duration (fst (TakingOverParticles rnd clk c color Slow shape w) ! i))
   \<and> \<bar>valueOf (duration (fst (TakingOverParticles rnd clk c color Fast shape w) ! i))
       / valueOf (duration (fst (TakingOverParticles rnd clk c color Slow shape w) ! i))
       / (0.2 / 3.0) - 1\<bar> \<le> 1 / 2 ^ 50"
    unfolding f s by (simp only: b_def [symmetric]) simp
qed

theorem duration_scaled_by_speed_class_witness:
  "(\<forall>k. 0 \<le> valueOf (fixedRandom half64 k) \<and> valueOf (fixedRandom half64 k) < 1)
   \<and> (7::nat) < 40
   \<and> duration (fst (TakingOverParticles (fixedRandom half64) (frozenClock 0) zero64
        ''#FFD700'' Fast Diamond initialWorld) ! 7) = Double 6305039478318695 (- 53)
   \<and> duration (fst (TakingOverParticles (fixedRandom half64) (frozenClock 0) zero64
        ''#FFD700'' Slow Diamond initialWorld) ! 7) = Double 21 (- 1)
   \<and> valueOf (duration (fst (TakingOverParticles (fixedRandom half64) (frozenClock 0) zero64
        ''#FFD700'' Fast Diamond initialWorld) ! 7))
       < valueOf (duration (fst (TakingOverParticles (fixedRandom half64) (frozenClock 0) zero64
        ''#FFD700'' Slow Diamond initialWorld) ! 7))"
proof -
  have h: "\<forall>k. 0 \<le> valueOf (fixedRandom half64 k) \<and> valueOf (fixedRandom half64 k) < 1"
    by (simp add: fixedRandom_def valueOf_literals)
  have i: "(7::nat) < 40"
    by simp
  note t = duration_scaled_by_speed_class
      [OF h, of "frozenClock 0" zero64 "''#FFD700''" Diamond initialWorld, rule_format, OF i]
  from t have "duration (fst (TakingOverParticles (fixedRandom half64) (frozenClock 0) zero64
        ''#FFD700'' Fast Diamond initialWorld) ! 7) = Double 6305039478318695 (- 53)"
    and "duration (fst (TakingOverParticles (fixedRandom half64) (frozenClock 0) zero64
        ''#FFD700'' Slow Diamond initialWorld) ! 7) = Double 21 (- 1)"
    by (simp_all add: fixedRandom_def getDurationMultiplier_def duration_at_half)
  with h i t show ?thesis
    by simp
qed

text \<open>
  Claim C7, as stated, fails: with the same random source and the same arguments, two calls
  that read different clock values return different particles. Here the clock reads \<open>0\<close> in
  one call and \<open>1000\<close> in the other, and the first particle's \<open>tx\<close> differs by \<open>20 * sin 1\<close>.
\<close>

theorem clock_changes_particles:
  "fst (TakingOverParticles (fixedRandom zero64) (frozenClock 0) zero64 ''#FFD700'' Normal Circle initialWorld)
   \<noteq> fst (TakingOverParticles (fixedRandom zero64) (frozenClock 1000) zero64 ''#FFD700'' Normal Circle initialWorld)"
proof
  assume "fst (TakingOverParticles (fixedRandom zero64) (frozenClock 0) zero64 ''#FFD700'' Normal Circle initialWorld)
    = fst (TakingOverParticles (fixedRandom zero64) (frozenClock 1000) zero64 ''#FFD700'' Normal Circle initialWorld)"
  then have "tx (fst (TakingOverParticles (fixedRandom zero64) (frozenClock 0) zero64 ''#FFD700'' Normal Circle initialWorld) ! 0)
    = tx (fst (TakingOverParticles (fixedRandom zero64) (frozenClock 1000) zero64 ''#FFD700'' Normal Circle initialWorld) ! 0)"
    by simp
  then have "sin (1::real) = 0"
    by (simp add: nth_TakingOverParticles tx_particle advance_def initialWorld_def
          fixedRandom_def frozenClock_def valueOf_literals)
  moreover have "0 < sin (1::real)"
    by (rule sin_gt_zero) (use pi_ge_two in simp_all)
  ultimately show False by simp
qed

text \<open>
  Claim C7, amended. With a fixed random source in place of \<^verbatim>\<open>Math.random\<close>, two calls with
  the same arguments return the same particles when they also read the same clock values
  (only the first 240 draws and the first 40 clock values are read); whatever the clock
  values, the two results agree in every field but \<open>tx\<close>, the one that adds the wind drift
  computed from \<^verbatim>\<open>Date.now()\<close>.
\<close>

theorem same_draws_and_clock_same_particles:
  "((\<forall>k < 240. rnd k = rnd' k) \<and> (\<forall>k < 40. clk k = clk' k) \<longrightarrow>
      fst (TakingOverParticles rnd clk c color speed shape initialWorld)
      = fst (TakingOverParticles rnd' clk' c color speed shape initialWorld))
   \<and> map (tx_update (\<lambda>_. 0)) (fst (TakingOverParticles rnd clk c color speed shape initialWorld))
     = map (tx_update (\<lambda>_. 0)) (fst (TakingOverParticles rnd clk' c color speed shape initialWorld))"
proof (intro conjI impI)
  assume a: "(\<forall>k < 240. rnd k = rnd' k) \<and> (\<forall>k < 40. clk k = clk' k)"
  show "fst (TakingOverParticles rnd clk c color speed shape initialWorld)
      = fst (TakingOverParticles rnd' clk' c color speed shape initialWorld)"
  proof (rule nth_equalityI)
    show "length (fst (TakingOverParticles rnd clk c color speed shape initialWorld))
        = length (fst (TakingOverParticles rnd' clk' c color speed shape initialWorld))"
      by (simp add: length_TakingOverParticles)
  next
    fix i
    assume "i < length (fst (TakingOverParticles rnd clk c color speed shape initialWorld))"
    then have i: "i < 40"
      by (simp add: length_TakingOverParticles)
    have "\<forall>k < 6. rnd (randomCalls (advance i initialWorld) + k)
        = rnd' (randomCalls (advance i initialWorld) + k)"
      using a i by (simp add: advance_def initialWorld_def)
    moreover have "clk (nowCalls (advance i initialWorld)) = clk' (nowCalls (advance i initialWorld))"
      using a i by (simp add: advance_def initialWorld_def)
    ultimately have "particle rnd clk (getDurationMultiplier speed) shape color i (advance i initialWorld)
        = particle rnd' clk' (getDurationMultiplier speed) shape color i (advance i initialWorld)"
      by (rule particle_cong)
    then show "fst (TakingOverParticles rnd clk c color speed shape initialWorld) ! i
        = fst (TakingOverParticles rnd' clk' c color speed shape initialWorld) ! i"
      using i by (simp add: nth_TakingOverParticles)
  qed
next
  show "map (tx_update (\<lambda>_. 0)) (fst (TakingOverParticles rnd clk c color speed shape initialWorld))
     = map (tx_update (\<lambda>_. 0)) (fst (TakingOverParticles rnd clk' c color speed shape initialWorld))"
    by (rule nth_equalityI)
       (simp_all add: length_TakingOverParticles nth_TakingOverParticles particle_clock_only_tx)
qed

theorem same_draws_and_clock_same_particles_witness:
  "fst (TakingOverParticles (fixedRandom zero64) (frozenClock 1000) zero64 ''#FFD700'' Slow Star initialWorld)
   = fst (TakingOverParticles (zeroUntil 240) (frozenClock 1000) zero64 ''#FFD700'' Slow Star initialWorld)"
proof -
  have "(\<forall>k < 240. fixedRandom zero64 k = zeroUntil 240 k)
      \<and> (\<forall>k < 40. frozenClock 1000 k = frozenClock 1000 k)"
    by (simp add: fixedRandom_def zeroUntil_def)
  with same_draws_and_clock_same_particles
    [of "fixedRandom zero64" "zeroUntil 240" "frozenClock 1000" "frozenClock 1000" zero64 "''#FFD700''" Slow Star]
  show ?thesis
    by blast
qed

text \<open>
  Claim C8, evaluated where it fails: width and height are two draws. With a random source
  whose sixth value is \<open>1 / 2\<close> and whose other values are \<open>0\<close>, the first particle is 2 px
  wide and 4 px high.
\<close>

theorem width_and_height_drawn_separately:
  "width (fst (TakingOverParticles unequalDraws (frozenClock 0) zero64 ''#FFD700'' Normal Circle initialWorld) ! 0) = 2
   \<and> height (fst (TakingOverParticles unequalDraws (frozenClock 0) zero64 ''#FFD700'' Normal Circle initialWorld) ! 0) = 4"
  by (simp add: nth_TakingOverParticles width_particle height_particle advance_def
        initialWorld_def unequalDraws_def valueOf_literals)

section \<open>Clicking a vault item\<close>

lemma map_id_layoutHelix: "map id' (layoutHelix items) = map id' items"
  by (rule nth_equalityI) (simp_all add: length_layoutHelix nth_layoutHelix id_helixPlacement)

lemma ids_baseItems:
  "map id' baseItems =
     [''dragon'', ''cosmic'', ''neon'', ''forest'',
      ''dragon-dup'', ''cosmic-dup'', ''neon-dup'', ''forest-dup'',
      ''dragon-dup2'', ''cosmic-dup2'', ''neon-dup2'', ''forest-dup2'',
      ''dragon-dup3'', ''cosmic-dup3'', ''neon-dup3'', ''forest-dup3'',
      ''locked-1'', ''locked-2'', ''locked-3'']"
  by (simp add: baseItems_def realities_def)

lemma ids_vaultItems:
  "map id' vaultItems =
     [''dragon'', ''cosmic'', ''neon'', ''forest'',
      ''dragon-dup'', ''cosmic-dup'', ''neon-dup'', ''forest-dup'',
      ''dragon-dup2'', ''cosmic-dup2'', ''neon-dup2'', ''forest-dup2'',
      ''dragon-dup3'', ''cosmic-dup3'', ''neon-dup3'', ''forest-dup3'',
      ''locked-1'', ''locked-2'', ''locked-3'']"
  by (simp only: vaultItems_def map_id_layoutHelix ids_baseItems)

lemma onSelectReality_iff_unlocked:
  "(\<exists>a. OnSelectReality a \<in> set (onClick item)) \<longleftrightarrow> \<not> startsWith (id' item) ''locked''"
  by (simp add: onClick_def isLocked_def)

lemma locked_only_thud:
  "startsWith (id' item) ''locked'' \<Longrightarrow> onClick item = [PlayThud]"
  by (simp add: onClick_def isLocked_def)

lemma onSelectReality_argument:
  "OnSelectReality a \<in> set (onClick item) \<longleftrightarrow>
     \<not> startsWith (id' item) ''locked'' \<and> a = replaceDup (id' item)"
  by (auto simp add: onClick_def isLocked_def)

text \<open>
  The pattern on strings that the vault does not hold: only a match that ends the string is
  replaced, and the match is \<^verbatim>\<open>-dup\<close> with at most one digit.
\<close>

lemma replaceDup_examples:
  "replaceDup ''neon-dup-dup7'' = ''neon-dup''"
  "replaceDup ''neon-dup77'' = ''neon-dup77''"
  "replaceDup ''neon-dupx'' = ''neon-dupx''"
  "replaceDup ''-dup'' = ''''"
  by (simp_all add: matchesDupAtEnd_def isDigit_def)

lemma vault_ids_strip:
  "\<forall>s \<in> set [''dragon'', ''cosmic'', ''neon'', ''forest'',
      ''dragon-dup'', ''cosmic-dup'', ''neon-dup'', ''forest-dup'',
      ''dragon-dup2'', ''cosmic-dup2'', ''neon-dup2'', ''forest-dup2'',
      ''dragon-dup3'', ''cosmic-dup3'', ''neon-dup3'', ''forest-dup3'',
      ''locked-1'', ''locked-2'', ''locked-3''].
     \<not> startsWith s ''locked'' \<longrightarrow>
       replaceDup s \<in> {''dragon'', ''cosmic'', ''neon'', ''forest''}
       \<and> (\<exists>suffix \<in> {'''', ''-dup'', ''-dup2'', ''-dup3''}. s = replaceDup s @ suffix)"
  by (simp add: startsWith_def matchesDupAtEnd_def isDigit_def)

text \<open>
  Claim C9. A click on a vault item calls \<^verbatim>\<open>onSelectReality\<close> if and only if the item is not
  locked, that is, its id does not start with \<^verbatim>\<open>locked\<close>; a click on a locked item only plays
  the thud. When \<^verbatim>\<open>onSelectReality\<close> is called, its argument is the item's id without its
  suffix \<^verbatim>\<open>-dup\<close>, \<^verbatim>\<open>-dup2\<close> or \<^verbatim>\<open>-dup3\<close>, if it has one, and is one of the four base ids
  \<^verbatim>\<open>dragon\<close>, \<^verbatim>\<open>cosmic\<close>, \<^verbatim>\<open>neon\<close>, \<^verbatim>\<open>forest\<close>.
\<close>

theorem click_selects_base_reality_unless_locked:
  "\<forall>item \<in> set vaultItems.
     ((\<exists>a. OnSelectReality a \<in> set (onClick item)) \<longleftrightarrow> \<not> startsWith (id' item) ''locked'')
     \<and> (startsWith (id' item) ''locked'' \<longrightarrow> onClick item = [PlayThud])
     \<and> (\<forall>a. OnSelectReality a \<in> set (onClick item) \<longrightarrow>
           a \<in> {''dragon'', ''cosmic'', ''neon'', ''forest''}
           \<and> (\<exists>suffix \<in> {'''', ''-dup'', ''-dup2'', ''-dup3''}. id' item = a @ suffix))"
proof (intro ballI conjI allI impI)
  fix item
  assume "item \<in> set vaultItems"
  show "(\<exists>a. OnSelectReality a \<in> set (onClick item)) \<longleftrightarrow> \<not> startsWith (id' item) ''locked''"
    by (rule onSelectReality_iff_unlocked)
next
  fix item
  assume "item \<in> set vaultItems" "startsWith (id' item) ''locked''"
  then show "onClick item = [PlayThud]"
    by (simp add: locked_only_thud)
next
  fix item a
  assume item: "item \<in> set vaultItems" and a: "OnSelectReality a \<in> set (onClick item)"
  from item have "id' item \<in> set (map id' vaultItems)"
    by simp
  then have s: "id' item \<in> set [''dragon'', ''cosmic'', ''neon'', ''forest'',
      ''dragon-dup'', ''cosmic-dup'', ''neon-dup'', ''forest-dup'',
      ''dragon-dup2'', ''cosmic-dup2'', ''neon-dup2'', ''forest-dup2'',
      ''dragon-dup3'', ''cosmic-dup3'', ''neon-dup3'', ''forest-dup3'',
      ''locked-1'', ''locked-2'', ''locked-3'']"
    by (simp only: ids_vaultItems)
  from a have u: "\<not> startsWith (id' item) ''locked''" and r: "a = replaceDup (id' item)"
    by (simp_all add: onSelectReality_argument)
  from vault_ids_strip [rule_format, OF s u] r
  show "a \<in> {''dragon'', ''cosmic'', ''neon'', ''forest''}"
    and "\<exists>suffix \<in> {'''', ''-dup'', ''-dup2'', ''-dup3''}. id' item = a @ suffix"
    by simp_all
qed

theorem click_selects_base_reality_unless_locked_witness:
  "vaultItems ! 5 \<in> set vaultItems
   \<and> id' (vaultItems ! 5) = ''cosmic-dup''
   \<and> onClick (vaultItems ! 5) = [PlayMemoryUnlock, OnSelectReality ''cosmic'']
   \<and> vaultItems ! 17 \<in> set vaultItems
   \<and> id' (vaultItems ! 17) = ''locked-2''
   \<and> onClick (vaultItems ! 17) = [PlayThud]"
proof -
  have m5: "vaultItems ! 5 \<in> set vaultItems" and m17: "vaultItems ! 17 \<in> set vaultItems"
    by (simp_all add: length_vaultItems)
  have "id' (vaultItems ! 5) = map id' vaultItems ! 5"
    and "id' (vaultItems ! 17) = map id' vaultItems ! 17"
    by (simp_all add: length_vaultItems)
  then have i5: "id' (vaultItems ! 5) = ''cosmic-dup''"
    and i17: "id' (vaultItems ! 17) = ''locked-2''"
    by (simp_all only: ids_vaultItems) simp_all
  have l17: "startsWith (id' (vaultItems ! 17)) ''locked''"
    by (simp add: i17 startsWith_def)
  from click_selects_base_reality_unless_locked [rule_format, OF m17] l17
  have "onClick (vaultItems ! 17) = [PlayThud]"
    by simp
  moreover have "onClick (vaultItems ! 5) = [PlayMemoryUnlock, OnSelectReality ''cosmic'']"
    by (simp add: onClick_def isLocked_def i5 startsWith_def matchesDupAtEnd_def isDigit_def)
  ultimately show ?thesis
    using m5 m17 i5 i17 by simp
qed

section \<open>The corruption counter\<close>

lemma after_199_ticks:
  "foldl useCorruption (useCorruption_mount True) (replicate 199 Tick)
   = \<lparr>corruption = Double 8962163258467294 (- 53), isActive = True\<rparr>"
  by code_simp

lemma after_200_ticks:
  "foldl useCorruption (useCorruption_mount True) (replicate 200 Tick)
   = \<lparr>corruption = Double 4503599627370499 (- 52), isActive = True\<rparr>"
  by code_simp

lemma after_201_ticks:
  "foldl useCorruption (useCorruption_mount True) (replicate 201 Tick)
   = \<lparr>corruption = Double 1 0, isActive = True\<rparr>"
  by code_simp

text \<open>
  Claim C10, evaluated where it fails. The hook is mounted active and the interval fires 200
  times. After 199 ticks the counter is just below 1 (\<open>0.9950000000000008\<close> in decimal
  notation), so the 200th tick adds \<open>0.005\<close> once more: the counter is then
  \<open>1 + 3 / 2 ^ 52\<close> (\<open>1.0000000000000007\<close>), above 1. The 201st tick sets it to 1.
\<close>

theorem corruption_exceeds_one_after_200_ticks:
  "valueOf (corruption (foldl useCorruption (useCorruption_mount True) (replicate 199 Tick))) < 1
   \<and> valueOf (corruption (foldl useCorruption (useCorruption_mount True) (replicate 200 Tick)))
       = 1 + 3 / 2 ^ 52
   \<and> valueOf (corruption (foldl useCorruption (useCorruption_mount True) (replicate 200 Tick))) > 1
   \<and> valueOf (corruption (foldl useCorruption (useCorruption_mount True) (replicate 201 Tick))) = 1"
  by (simp add: after_199_ticks after_200_ticks after_201_ticks valueOf_def)

end
